theory Spec2Isabelle
  imports Main
begin

section \<open>Documents of the store\<close>

text \<open>
  Object ids are the strings the routes and the socket handlers pass around
  (\<^verbatim>\<open>req.user.id\<close>, \<^verbatim>\<open>req.params.id\<close>, \<^verbatim>\<open>projectId\<close>).  A collection is the
  list of its documents in natural order; \<^verbatim>\<open>findOne(query)\<close> is \<^const>\<open>find\<close> with the
  query as a predicate.  Queries are taken on well-formed ids: the cast errors of the
  object-document mapper on malformed ids are not modelled.
\<close>

type_synonym oid = string

text \<open>\<^verbatim>\<open>role\<close> of the User schema: enum masteradmin, admin, employee, team_leader, bug_fixer.\<close>

datatype role = masteradmin | admin | employee | team_leader | bug_fixer

text \<open>
  A User document.  For the authenticated caller (\<^verbatim>\<open>req.user\<close>, \<^verbatim>\<open>socket.user\<close>) the
  references \<^verbatim>\<open>company\<close> and \<^verbatim>\<open>teams\<close> are populated: \<open>u_company\<close> is then the
  \<^verbatim>\<open>_id\<close> of the populated company, \<open>None\<close> when there is none (so that
  \<^verbatim>\<open>req.user.company._id\<close> throws), and \<open>u_teams\<close> the ids of the populated teams.
\<close>

record user =
  u_id :: oid
  u_name :: string
  u_email :: string
  u_avatar :: "string option"
  u_role :: role
  u_company :: "oid option"
  u_teams :: "oid list"
  u_isActive :: bool

text \<open>A Project document (the fields the access queries and the chat bridge read).\<close>

record project =
  p_id :: oid
  p_company :: oid
  p_team :: oid
  p_members :: "oid list"
  p_chatRoom :: "string option"
  p_isActive :: bool

datatype req_status = pending | accepted | rejected

text \<open>
  Modelled from the spec: the Task schema file is not among the sources.  The fields of
  an embedded delegation request are those the spec lists
  (\<^verbatim>\<open>{ id, fromUser, toUser, reason, status, createdAt }\<close>, status one of pending,
  accepted, rejected) and the route pushes; the fields of a task are those
  \<^verbatim>\<open>Task.create\<close> and the routes write.
\<close>

record delegation_request =
  r_id :: oid
  fromUser :: oid
  toUser :: oid
  reason :: string
  r_status :: req_status
  createdAt :: nat

record task =
  t_id :: oid
  title :: string
  description :: string
  t_project :: oid
  t_company :: oid
  assignedTo :: oid
  createdBy :: oid
  priority :: string
  deadline :: nat
  t_status :: string
  comments :: "(oid \<times> string \<times> nat) list"
  delegationRequests :: "delegation_request list"
  t_isActive :: bool

text \<open>
  A ChatMessage document.  In the schema \<^verbatim>\<open>file\<close> and \<^verbatim>\<open>code\<close> are nested paths
  (object literals of fields, not sub-schemas); \<open>None\<close> is a document in which the
  path was never set.
\<close>

record file_meta =
  f_filename :: string
  f_originalName :: string
  f_path :: string
  f_size :: nat
  f_mimeType :: string

record code_snippet =
  c_language :: string
  c_content :: string

record chat_message =
  m_id :: oid
  m_project :: oid
  m_task :: "oid option"
  m_sender :: oid
  m_content :: "string option"
  messageType :: string
  m_file :: "file_meta option"
  m_code :: "code_snippet option"
  isEdited :: bool
  m_createdAt :: nat

record db =
  users :: "user list"
  projects :: "project list"
  tasks :: "task list"
  chatMessages :: "chat_message list"

text \<open>A JSON reply: \<^verbatim>\<open>res.status(code).json({ message })\<close>; \<^verbatim>\<open>res.json\<close> alone is 200.\<close>

datatype http_reply = Json nat string

fun code :: "http_reply \<Rightarrow> nat" where
  "code (Json c m) = c"

datatype js_error = TypeError

section \<open>Request validation (express-validator)\<close>

text \<open>
  A string of the model is the UTF-8 encoding of the JavaScript string.  The white
  space that \<^verbatim>\<open>trim\<close> strips (the sanitizer of the validation chain and
  \<^verbatim>\<open>String.prototype.trim\<close> alike) is U+0009 to U+000D, U+0020, U+00A0, U+1680,
  U+2000 to U+200A, U+2028, U+2029, U+202F, U+205F, U+3000 and U+FEFF: characters of
  one, two or three bytes.
\<close>

definition is_space1 :: "char \<Rightarrow> bool" where
  "is_space1 a = (a = CHR '' '' \<or> a = CHR 0x09 \<or> a = CHR 0x0A \<or> a = CHR 0x0B
     \<or> a = CHR 0x0C \<or> a = CHR 0x0D)"

definition is_space2 :: "char \<Rightarrow> char \<Rightarrow> bool" where
  "is_space2 a b = (a = CHR 0xC2 \<and> b = CHR 0xA0)"

definition is_space3 :: "char \<Rightarrow> char \<Rightarrow> char \<Rightarrow> bool" where
  "is_space3 a b c =
     (a = CHR 0xE1 \<and> b = CHR 0x9A \<and> c = CHR 0x80
      \<or> a = CHR 0xE2 \<and> b = CHR 0x80 \<and>
          c \<in> {CHR 0x80, CHR 0x81, CHR 0x82, CHR 0x83, CHR 0x84, CHR 0x85, CHR 0x86, CHR 0x87,
               CHR 0x88, CHR 0x89, CHR 0x8A, CHR 0xA8, CHR 0xA9, CHR 0xAF}
      \<or> a = CHR 0xE2 \<and> b = CHR 0x81 \<and> c = CHR 0x9F
      \<or> a = CHR 0xE3 \<and> b = CHR 0x80 \<and> c = CHR 0x80
      \<or> a = CHR 0xEF \<and> b = CHR 0xBB \<and> c = CHR 0xBF)"

fun trim_start :: "string \<Rightarrow> string" where
  "trim_start [] = []"
| "trim_start [a] = (if is_space1 a then [] else [a])"
| "trim_start [a, b] =
     (if is_space1 a then trim_start [b] else if is_space2 a b then [] else [a, b])"
| "trim_start (a # b # c # s) =
     (if is_space1 a then trim_start (b # c # s)
      else if is_space2 a b then trim_start (c # s)
      else if is_space3 a b c then trim_start s
      else a # b # c # s)"

text \<open>The same from the end, on the reversed string.\<close>

fun trim_reversed :: "string \<Rightarrow> string" where
  "trim_reversed [] = []"
| "trim_reversed [a] = (if is_space1 a then [] else [a])"
| "trim_reversed [a, b] =
     (if is_space1 a then trim_reversed [b] else if is_space2 b a then [] else [a, b])"
| "trim_reversed (a # b # c # s) =
     (if is_space1 a then trim_reversed (b # c # s)
      else if is_space2 b a then trim_reversed (c # s)
      else if is_space3 c b a then trim_reversed s
      else a # b # c # s)"

definition trim :: "string \<Rightarrow> string" where
  "trim s = rev (trim_reversed (rev (trim_start s)))"

text \<open>
  The length \<^verbatim>\<open>isLength\<close> compares with its bounds: the UTF-16 length less one for
  every surrogate pair and every variation selector U+FE0E, U+FE0F; on the UTF-8 bytes,
  the number of characters (bytes that are not continuation bytes) less the selectors.
\<close>

definition is_continuation :: "char \<Rightarrow> bool" where
  "is_continuation c = ((of_char c :: nat) div 64 = 2)"

fun count_selectors :: "string \<Rightarrow> nat" where
  "count_selectors (a # b # c # s) =
     (if a = CHR 0xEF \<and> b = CHR 0xB8 \<and> (c = CHR 0x8E \<or> c = CHR 0x8F) then 1 else 0)
       + count_selectors (b # c # s)"
| "count_selectors s = 0"

definition validator_length :: "string \<Rightarrow> nat" where
  "validator_length s = length (filter (\<lambda>c. \<not> is_continuation c) s) - count_selectors s"

definition is_hex :: "char \<Rightarrow> bool" where
  "is_hex c = (c \<in> set ''0123456789abcdefABCDEF'')"

text \<open>
  \<^verbatim>\<open>isHexadecimal\<close>: the pattern \<^verbatim>\<open>/^(0x|0h)?[0-9A-F]+$/i\<close>.  \<^verbatim>\<open>isMongoId()\<close>: a
  hexadecimal string of length 24.
\<close>

definition is_hexadecimal :: "string \<Rightarrow> bool" where
  "is_hexadecimal s =
     (s \<noteq> [] \<and> list_all is_hex s \<or>
      take 2 s \<in> {''0x'', ''0X'', ''0h'', ''0H''} \<and> drop 2 s \<noteq> [] \<and> list_all is_hex (drop 2 s))"

definition is_mongo_id :: "string \<Rightarrow> bool" where
  "is_mongo_id s = (is_hexadecimal s \<and> length s = 24)"

section \<open>Task delegation routes\<close>

text \<open>
  \<^verbatim>\<open>Array.prototype.find\<close> with a callback that may throw: the first element the
  callback accepts, \<open>None\<close> for \<^verbatim>\<open>undefined\<close>, and the exception of the first call
  that throws.
\<close>

fun js_find :: "('a \<Rightarrow> js_error + bool) \<Rightarrow> 'a list \<Rightarrow> js_error + 'a option" where
  "js_find f [] = Inr None"
| "js_find f (x # xs) =
     (case f x of
        Inl e \<Rightarrow> Inl e
      | Inr b \<Rightarrow> if b then Inr (Some x) else js_find f xs)"

text \<open>
  The callback of the duplicate check in \<^verbatim>\<open>POST /api/tasks/:id/delegate\<close>:
  \<^verbatim>\<open>req => req.status === 'pending' && req.fromUser.toString() === req.user.id\<close>.
  Its parameter is named \<^verbatim>\<open>req\<close> and hides the handler's \<^verbatim>\<open>req\<close>, so
  \<^verbatim>\<open>req.user\<close> is read on the delegation request, which has no such property:
  \<open>request_user\<close> is that read (\<^verbatim>\<open>undefined\<close>), and \<^verbatim>\<open>.id\<close> on it throws a
  TypeError.  \<^verbatim>\<open>&&\<close> evaluates its right operand only for a pending request.
\<close>

definition request_user :: "delegation_request \<Rightarrow> user option" where
  "request_user req = None"

definition existing_request_test :: "delegation_request \<Rightarrow> js_error + bool" where
  "existing_request_test req =
     (if r_status req = pending
      then (case request_user req of
              None \<Rightarrow> Inl TypeError
            | Some u \<Rightarrow> Inr (fromUser req = u_id u))
      else Inr False)"

text \<open>\<^verbatim>\<open>task.save()\<close>: the stored document with the task's \<^verbatim>\<open>_id\<close> is replaced.\<close>

definition save_task :: "task \<Rightarrow> db \<Rightarrow> db" where
  "save_task t d = d\<lparr>tasks := map (\<lambda>x. if t_id x = t_id t then t else x) (tasks d)\<rparr>"

text \<open>
  \<^verbatim>\<open>POST /api/tasks/:id/delegate\<close>.  \<open>caller\<close> is \<^verbatim>\<open>req.user\<close>, \<open>taskId\<close> is
  \<^verbatim>\<open>req.params.id\<close>, \<open>toUserId\<close> and \<open>reason_in\<close> are the body; \<open>newId\<close> is the
  \<^verbatim>\<open>_id\<close> the mapper gives the pushed sub-document and \<open>now\<close> is \<^verbatim>\<open>new Date()\<close>.
  Every exception inside the \<^verbatim>\<open>try\<close> ends in the 500 reply of the \<^verbatim>\<open>catch\<close>.
\<close>

definition delegate ::
  "db \<Rightarrow> user \<Rightarrow> oid \<Rightarrow> string \<Rightarrow> string \<Rightarrow> oid \<Rightarrow> nat \<Rightarrow> http_reply \<times> db" where
  "delegate d caller taskId toUserId reason_in newId now =
     (if is_mongo_id toUserId \<and> 1 \<le> validator_length (trim reason_in)
         \<and> validator_length (trim reason_in) \<le> 500
      then
        (case u_company caller of
           None \<Rightarrow> (Json 500 ''Server error while creating delegation request'', d)
         | Some cid \<Rightarrow>
        (case find (\<lambda>t. t_id t = taskId \<and> assignedTo t = u_id caller
                        \<and> t_company t = cid \<and> t_isActive t) (tasks d) of
           None \<Rightarrow> (Json 404 ''Task not found or you are not assigned to it'', d)
         | Some task \<Rightarrow>
        (case find (\<lambda>p. p_id p = t_project task) (projects d) of
           None \<Rightarrow> (Json 500 ''Server error while creating delegation request'', d)
         | Some proj \<Rightarrow>
        if toUserId \<in> set (p_members proj)
        then
        (case find (\<lambda>u. u_id u = toUserId \<and> u_company u = Some cid \<and> u_isActive u)
                (users d) of
           None \<Rightarrow> (Json 400 ''Target user not found in your company'', d)
         | Some targetUser \<Rightarrow>
        (case js_find existing_request_test (delegationRequests task) of
           Inl e \<Rightarrow> (Json 500 ''Server error while creating delegation request'', d)
         | Inr (Some existingRequest) \<Rightarrow>
             (Json 400 ''You already have a pending delegation request for this task'', d)
         | Inr None \<Rightarrow>
             (Json 200 ''Delegation request sent successfully'',
              save_task
                (task\<lparr>delegationRequests := delegationRequests task @
                   [\<lparr>r_id = newId, fromUser = u_id caller, toUser = toUserId,
                     reason = trim (trim reason_in), r_status = pending,
                     createdAt = now\<rparr>]\<rparr>) d)))
        else (Json 400 ''Target user is not a member of this project'', d))))
      else (Json 400 ''Validation failed'', d))"

text \<open>
  The same handler in its two parts.  It awaits the store when it loads the task and
  when it looks the target user up, and again at \<^verbatim>\<open>task.save()\<close>, so other requests
  may be handled in between.  \<open>delegate_read\<close> is the part up to the duplicate check,
  on the store as it is when the handler reads it: the reply of a failed check, or the
  task as loaded.  \<open>push_request\<close> is \<^verbatim>\<open>task.save()\<close> after the
  \<^verbatim>\<open>delegationRequests.push\<close>: the pushed request is appended to the stored list of the
  task of that \<^verbatim>\<open>_id\<close>, as that list is when the write arrives.
\<close>

definition new_request :: "user \<Rightarrow> string \<Rightarrow> string \<Rightarrow> oid \<Rightarrow> nat \<Rightarrow> delegation_request" where
  "new_request caller toUserId reason_in newId now =
     \<lparr>r_id = newId, fromUser = u_id caller, toUser = toUserId,
      reason = trim (trim reason_in), r_status = pending, createdAt = now\<rparr>"

definition delegate_read :: "db \<Rightarrow> user \<Rightarrow> oid \<Rightarrow> string \<Rightarrow> string \<Rightarrow> http_reply + task" where
  "delegate_read d caller taskId toUserId reason_in =
     (if is_mongo_id toUserId \<and> 1 \<le> validator_length (trim reason_in)
         \<and> validator_length (trim reason_in) \<le> 500
      then
        (case u_company caller of
           None \<Rightarrow> Inl (Json 500 ''Server error while creating delegation request'')
         | Some cid \<Rightarrow>
        (case find (\<lambda>t. t_id t = taskId \<and> assignedTo t = u_id caller
                        \<and> t_company t = cid \<and> t_isActive t) (tasks d) of
           None \<Rightarrow> Inl (Json 404 ''Task not found or you are not assigned to it'')
         | Some task \<Rightarrow>
        (case find (\<lambda>p. p_id p = t_project task) (projects d) of
           None \<Rightarrow> Inl (Json 500 ''Server error while creating delegation request'')
         | Some proj \<Rightarrow>
        if toUserId \<in> set (p_members proj)
        then
        (case find (\<lambda>u. u_id u = toUserId \<and> u_company u = Some cid \<and> u_isActive u)
                (users d) of
           None \<Rightarrow> Inl (Json 400 ''Target user not found in your company'')
         | Some targetUser \<Rightarrow>
        (case js_find existing_request_test (delegationRequests task) of
           Inl e \<Rightarrow> Inl (Json 500 ''Server error while creating delegation request'')
         | Inr (Some existingRequest) \<Rightarrow>
             Inl (Json 400 ''You already have a pending delegation request for this task'')
         | Inr None \<Rightarrow> Inr task))
        else Inl (Json 400 ''Target user is not a member of this project''))))
      else Inl (Json 400 ''Validation failed''))"

definition push_request :: "oid \<Rightarrow> delegation_request \<Rightarrow> db \<Rightarrow> db" where
  "push_request taskId r d =
     d\<lparr>tasks := map (\<lambda>x. if t_id x = taskId
                          then x\<lparr>delegationRequests := delegationRequests x @ [r]\<rparr> else x)
                  (tasks d)\<rparr>"

text \<open>
  \<^verbatim>\<open>request.status = ...\<close> on the sub-document \<^verbatim>\<open>task.delegationRequests.id(requestId)\<close>
  returned: the first request with that \<^verbatim>\<open>_id\<close> is the one written.
\<close>

fun set_request_status :: "oid \<Rightarrow> req_status \<Rightarrow> delegation_request list \<Rightarrow> delegation_request list" where
  "set_request_status rid s [] = []"
| "set_request_status rid s (r # rs) =
     (if r_id r = rid then r\<lparr>r_status := s\<rparr> # rs else r # set_request_status rid s rs)"

text \<open>
  \<^verbatim>\<open>PUT /api/tasks/delegation-requests/:requestId\<close>.  The task query has two
  independent conditions on the embedded array: some request has the \<^verbatim>\<open>_id\<close>, and some
  request (the same or another) has the caller as \<^verbatim>\<open>toUser\<close>.
\<close>

definition request_task_query :: "oid \<Rightarrow> oid \<Rightarrow> oid \<Rightarrow> task \<Rightarrow> bool" where
  "request_task_query requestId uid cid t =
     (list_ex (\<lambda>r. r_id r = requestId) (delegationRequests t)
      \<and> list_ex (\<lambda>r. toUser r = uid) (delegationRequests t)
      \<and> t_company t = cid \<and> t_isActive t)"

definition resolve :: "db \<Rightarrow> user \<Rightarrow> oid \<Rightarrow> string \<Rightarrow> http_reply \<times> db" where
  "resolve d caller requestId action =
     (if action = ''accept'' \<or> action = ''reject''
      then
        (case u_company caller of
           None \<Rightarrow> (Json 500 ''Server error while processing delegation request'', d)
         | Some cid \<Rightarrow>
        (case find (request_task_query requestId (u_id caller) cid) (tasks d) of
           None \<Rightarrow> (Json 404 ''Delegation request not found'', d)
         | Some task \<Rightarrow>
        (case find (\<lambda>r. r_id r = requestId) (delegationRequests task) of
           None \<Rightarrow> (Json 404 ''Delegation request not found'', d)
         | Some request \<Rightarrow>
        if r_status request = pending
        then
          (Json 200 (''Request '' @ action @ ''ed successfully''),
           save_task
             (task\<lparr>delegationRequests :=
                     set_request_status requestId
                       (if action = ''accept'' then accepted else rejected)
                       (delegationRequests task),
                   assignedTo := (if action = ''accept'' then u_id caller else assignedTo task)\<rparr>)
             d)
        else (Json 400 ''Request has already been processed'', d))))
      else (Json 400 ''Validation failed'', d))"

section \<open>Sequences of delegation operations\<close>

text \<open>
  The two routes that write \<^verbatim>\<open>delegationRequests\<close> or \<^verbatim>\<open>assignedTo\<close> of a stored
  task, as operations.  \<open>step\<close> is sequential handling: the handler of one request
  runs from its first read to its save with no other request handled in between
  (\<open>delegate\<close> and \<open>resolve\<close> as wholes).  The handlers await the store between
  their reads and their save, and requests that interleave there are not runs of
  \<open>step\<close>; for the create route they are compositions of \<open>delegate_read\<close> and
  \<open>push_request\<close>.
\<close>

datatype operation =
    Delegate user oid string string oid nat
  | Resolve user oid string

fun step :: "db \<Rightarrow> operation \<Rightarrow> db" where
  "step d (Delegate caller taskId toUserId reason_in newId now) =
     snd (delegate d caller taskId toUserId reason_in newId now)"
| "step d (Resolve caller requestId action) = snd (resolve d caller requestId action)"

definition pending_from :: "oid \<Rightarrow> task \<Rightarrow> delegation_request list" where
  "pending_from u t =
     filter (\<lambda>r. r_status r = pending \<and> fromUser r = u) (delegationRequests t)"

definition pending_unique :: "db \<Rightarrow> bool" where
  "pending_unique d = (\<forall>t \<in> set (tasks d). \<forall>u. length (pending_from u t) \<le> 1)"

definition no_pending_with_id :: "oid \<Rightarrow> db \<Rightarrow> bool" where
  "no_pending_with_id requestId d =
     list_all (\<lambda>t. list_all (\<lambda>r. \<not> (r_id r = requestId \<and> r_status r = pending))
                       (delegationRequests t)) (tasks d)"

text \<open>
  A request that is no longer pending is kept as it is: \<open>rs'\<close> is at least as long
  as \<open>rs\<close> and agrees with it at every position whose request is not pending in \<open>rs\<close>.
\<close>

definition settled_kept :: "delegation_request list \<Rightarrow> delegation_request list \<Rightarrow> bool" where
  "settled_kept rs rs' =
     (length rs \<le> length rs' \<and>
      list_all (\<lambda>i. r_status (rs ! i) = pending \<or> rs' ! i = rs ! i) [0..<length rs])"

definition db_settled_kept :: "db \<Rightarrow> db \<Rightarrow> bool" where
  "db_settled_kept d d' =
     list_all2 (\<lambda>t t'. t_id t' = t_id t \<and>
                  settled_kept (delegationRequests t) (delegationRequests t'))
       (tasks d) (tasks d')"

section \<open>Project access on the two surfaces\<close>

text \<open>
  The query \<^verbatim>\<open>join-project\<close> and \<^verbatim>\<open>send-message\<close> both build (the same lines in
  both handlers): the project of that id in the caller's company, and for the roles
  employee, team_leader and bug_fixer an \<^verbatim>\<open>$or\<close> of "the caller is among the members"
  and "the project's team is one of the caller's teams".
\<close>

definition socket_project_query :: "user \<Rightarrow> oid \<Rightarrow> oid \<Rightarrow> project \<Rightarrow> bool" where
  "socket_project_query u cid projectId p =
     (p_id p = projectId \<and> p_company p = cid \<and>
      (if u_role u \<in> {employee, team_leader, bug_fixer}
       then u_id u \<in> set (p_members p) \<or> p_team p \<in> set (u_teams u)
       else True))"

text \<open>The query of \<^verbatim>\<open>GET /api/chat/:projectId\<close>: id and company only.\<close>

definition chat_project_query :: "oid \<Rightarrow> oid \<Rightarrow> project \<Rightarrow> bool" where
  "chat_project_query cid projectId p = (p_id p = projectId \<and> p_company p = cid)"

text \<open>JavaScript truthiness of an optional string: \<^verbatim>\<open>undefined\<close> and \<^verbatim>\<open>''\<close> are falsy.\<close>

definition truthy :: "string option \<Rightarrow> bool" where
  "truthy v = (case v of None \<Rightarrow> False | Some s \<Rightarrow> s \<noteq> [])"

text \<open>\<^verbatim>\<open>populate('sender', 'name email avatar role')\<close>: the sender's document, if any.\<close>

record sender_info =
  s_id :: oid
  s_name :: string
  s_email :: string
  s_avatar :: "string option"
  s_role :: role

definition populate_sender :: "db \<Rightarrow> chat_message \<Rightarrow> chat_message \<times> sender_info option" where
  "populate_sender d m =
     (m, map_option
           (\<lambda>u. \<lparr>s_id = u_id u, s_name = u_name u, s_email = u_email u,
                 s_avatar = u_avatar u, s_role = u_role u\<rparr>)
           (find (\<lambda>u. u_id u = m_sender m) (users d)))"

text \<open>
  \<^verbatim>\<open>GET /api/chat/:projectId?taskId=\<close>, for the authenticated caller: the messages of
  the project (of the task, when \<^verbatim>\<open>taskId\<close> is given), oldest first.
\<close>

definition get_chat ::
  "db \<Rightarrow> user \<Rightarrow> oid \<Rightarrow> oid option \<Rightarrow> http_reply + (chat_message \<times> sender_info option) list" where
  "get_chat d caller projectId taskId =
     (case u_company caller of
        None \<Rightarrow> Inl (Json 500 ''Server error'')
      | Some cid \<Rightarrow>
     (case find (chat_project_query cid projectId) (projects d) of
        None \<Rightarrow> Inl (Json 404 ''Project not found'')
      | Some proj \<Rightarrow>
          Inr (map (populate_sender d)
                 (sort_key m_createdAt
                    (filter (\<lambda>m. m_project m = projectId \<and>
                                 (if truthy taskId then m_task m = taskId else True))
                       (chatMessages d))))))"

section \<open>The realtime bridge\<close>

text \<open>
  A connected socket carries the user its connection was authenticated as.  The rooms of
  the server map a room name to the set of sockets in it.
\<close>

record socket =
  sock_id :: nat
  sock_user :: user

type_synonym rooms = "string \<Rightarrow> nat set"

datatype server_event =
    NewMessage "(chat_message \<times> sender_info option) option"
  | UserTyping oid string "oid option"
  | UserStopTyping oid "oid option"
  | ErrorEvent string

text \<open>
  What a handler sends: \<^verbatim>\<open>socket.emit\<close> (to the socket itself), \<^verbatim>\<open>io.to(room).emit\<close>
  (to every socket of the room) and \<^verbatim>\<open>socket.to(room).emit\<close> (to every socket of the
  room but the sender).
\<close>

datatype emission =
    ToSocket nat server_event
  | ToRoom string server_event
  | ToRoomExcept string nat server_event

fun event_of :: "emission \<Rightarrow> server_event" where
  "event_of (ToSocket s ev) = ev"
| "event_of (ToRoom r ev) = ev"
| "event_of (ToRoomExcept r s ev) = ev"

fun room_of :: "emission \<Rightarrow> string option" where
  "room_of (ToSocket s ev) = None"
| "room_of (ToRoom r ev) = Some r"
| "room_of (ToRoomExcept r s ev) = Some r"

fun receives :: "rooms \<Rightarrow> emission \<Rightarrow> nat \<Rightarrow> bool" where
  "receives rs (ToSocket s ev) x = (x = s)"
| "receives rs (ToRoom r ev) x = (x \<in> rs r)"
| "receives rs (ToRoomExcept r s ev) x = (x \<in> rs r \<and> x \<noteq> s)"

text \<open>The events socket \<open>x\<close> receives through room \<open>r\<close>, in the order sent.\<close>

definition via_room :: "rooms \<Rightarrow> emission list \<Rightarrow> string \<Rightarrow> nat \<Rightarrow> server_event list" where
  "via_room rs ems r x =
     map event_of (filter (\<lambda>e. room_of e = Some r \<and> receives rs e x) ems)"

definition join :: "rooms \<Rightarrow> nat \<Rightarrow> string \<Rightarrow> rooms" where
  "join rs s r = rs(r := insert s (rs r))"

definition project_room :: "oid \<Rightarrow> string" where
  "project_room projectId = ''project-'' @ projectId"

text \<open>\<^verbatim>\<open>socket.on('join-project', ...)\<close>: the rooms afterwards and what was sent.\<close>

definition join_project :: "db \<Rightarrow> rooms \<Rightarrow> socket \<Rightarrow> oid \<Rightarrow> rooms \<times> emission list" where
  "join_project d rs sock projectId =
     (case u_company (sock_user sock) of
        None \<Rightarrow> (rs, [ToSocket (sock_id sock) (ErrorEvent ''Error joining project'')])
      | Some cid \<Rightarrow>
     (case find (socket_project_query (sock_user sock) cid projectId) (projects d) of
        None \<Rightarrow> (rs, [ToSocket (sock_id sock) (ErrorEvent ''Project not found'')])
      | Some proj \<Rightarrow>
          (if truthy (p_chatRoom proj)
           then join (join rs (sock_id sock) (project_room projectId)) (sock_id sock)
                  (the (p_chatRoom proj))
           else join rs (sock_id sock) (project_room projectId),
           [])))"

text \<open>The payload of \<^verbatim>\<open>send-message\<close>, as the handler destructures it.\<close>

record send_data =
  d_projectId :: oid
  d_chatRoom :: "string option"
  d_taskId :: "oid option"
  d_content :: "string option"
  d_messageType :: "string option"
  d_file :: "file_meta option"
  d_code :: "code_snippet option"

text \<open>\<^verbatim>\<open>messageData\<close>: project, sender and message type, and each optional field if truthy.\<close>

record message_data =
  md_project :: oid
  md_sender :: oid
  md_messageType :: string
  md_task :: "oid option"
  md_content :: "string option"
  md_file :: "file_meta option"
  md_code :: "code_snippet option"

definition build_message_data :: "socket \<Rightarrow> send_data \<Rightarrow> message_data" where
  "build_message_data sock data =
     \<lparr>md_project = d_projectId data,
      md_sender = u_id (sock_user sock),
      md_messageType = (if truthy (d_messageType data) then the (d_messageType data)
                        else ''text''),
      md_task = (if truthy (d_taskId data) then d_taskId data else None),
      md_content = (if truthy (d_content data) then d_content data else None),
      md_file = d_file data,
      md_code = d_code data\<rparr>"

text \<open>
  The schema's validator of \<^verbatim>\<open>content\<close>:
  \<^verbatim>\<open>required: function() { return !this.file && !this.code; }\<close>.
  \<^verbatim>\<open>this.file\<close> and \<^verbatim>\<open>this.code\<close> are reads of nested paths through the getters of
  the object-document mapper, which is not part of the repository.  \<open>nested_object\<close>
  says what such a getter yields for a path that was never set: \<open>True\<close> for a nested
  object (which is truthy; the mapper's documentation: a nested path is never
  \<^verbatim>\<open>undefined\<close>), \<open>False\<close> for \<^verbatim>\<open>undefined\<close>.
\<close>

definition path_truthy :: "bool \<Rightarrow> 'a option \<Rightarrow> bool" where
  "path_truthy nested_object v = (nested_object \<or> v \<noteq> None)"

definition content_required :: "bool \<Rightarrow> message_data \<Rightarrow> bool" where
  "content_required nested_object md =
     (\<not> path_truthy nested_object (md_file md) \<and> \<not> path_truthy nested_object (md_code md))"

datatype orm_error = ValidationError

text \<open>
  \<^verbatim>\<open>ChatMessage.create(messageData)\<close>: the enum of \<^verbatim>\<open>messageType\<close> and the conditional
  \<^verbatim>\<open>required\<close> of \<^verbatim>\<open>content\<close> are validated; the document gets its \<^verbatim>\<open>_id\<close>, the
  default of \<^verbatim>\<open>isEdited\<close> and its timestamp.
\<close>

definition ChatMessage_create ::
  "bool \<Rightarrow> message_data \<Rightarrow> oid \<Rightarrow> nat \<Rightarrow> orm_error + chat_message" where
  "ChatMessage_create nested_object md newId now =
     (if md_messageType md \<in> {''text'', ''file'', ''code''}
      then
        (if content_required nested_object md \<and> \<not> truthy (md_content md)
         then Inl ValidationError
         else Inr \<lparr>m_id = newId, m_project = md_project md, m_task = md_task md,
                   m_sender = md_sender md, m_content = md_content md,
                   messageType = md_messageType md, m_file = md_file md,
                   m_code = md_code md, isEdited = False, m_createdAt = now\<rparr>)
      else Inl ValidationError)"

text \<open>
  \<^verbatim>\<open>socket.on('send-message', ...)\<close>: the store afterwards and what was sent.  The
  message broadcast is \<^verbatim>\<open>ChatMessage.findById(message._id)\<close> of the store after the
  write, with its sender populated.
\<close>

definition send_message ::
  "bool \<Rightarrow> db \<Rightarrow> socket \<Rightarrow> send_data \<Rightarrow> oid \<Rightarrow> nat \<Rightarrow> db \<times> emission list" where
  "send_message nested_object d sock data newId now =
     (case u_company (sock_user sock) of
        None \<Rightarrow> (d, [ToSocket (sock_id sock) (ErrorEvent ''Error sending message'')])
      | Some cid \<Rightarrow>
     (case find (socket_project_query (sock_user sock) cid (d_projectId data)) (projects d) of
        None \<Rightarrow> (d, [ToSocket (sock_id sock) (ErrorEvent ''Project not found'')])
      | Some proj \<Rightarrow>
     (case ChatMessage_create nested_object (build_message_data sock data) newId now of
        Inl e \<Rightarrow> (d, [ToSocket (sock_id sock) (ErrorEvent ''Error sending message'')])
      | Inr message \<Rightarrow>
          (let d' = d\<lparr>chatMessages := chatMessages d @ [message]\<rparr>;
               populatedMessage =
                 map_option (populate_sender d')
                   (find (\<lambda>m. m_id m = m_id message) (chatMessages d'))
           in (d',
               ToRoom (project_room (d_projectId data)) (NewMessage populatedMessage) #
               (if truthy (d_chatRoom data)
                then [ToRoom (the (d_chatRoom data)) (NewMessage populatedMessage)]
                else []))))))"

text \<open>The payload of \<^verbatim>\<open>typing\<close> and \<^verbatim>\<open>stop-typing\<close>.\<close>

record typing_data =
  ty_projectId :: oid
  ty_taskId :: "oid option"

text \<open>\<^verbatim>\<open>socket.on('typing', ...)\<close> and \<^verbatim>\<open>socket.on('stop-typing', ...)\<close>.\<close>

definition typing :: "socket \<Rightarrow> typing_data \<Rightarrow> emission list" where
  "typing sock data =
     [ToRoomExcept (project_room (ty_projectId data)) (sock_id sock)
        (UserTyping (u_id (sock_user sock)) (u_name (sock_user sock)) (ty_taskId data))]"

definition stop_typing :: "socket \<Rightarrow> typing_data \<Rightarrow> emission list" where
  "stop_typing sock data =
     [ToRoomExcept (project_room (ty_projectId data)) (sock_id sock)
        (UserStopTyping (u_id (sock_user sock)) (ty_taskId data))]"

text \<open>The number of populated payload kinds of a stored message.\<close>

definition payload_kinds :: "chat_message \<Rightarrow> nat" where
  "payload_kinds m =
     (if m_content m = None then 0 else 1) + (if m_file m = None then 0 else 1)
       + (if m_code m = None then 0 else 1)"

text \<open>A payload that holds at least one of content, file, code.\<close>

definition payload_has_kind :: "send_data \<Rightarrow> bool" where
  "payload_has_kind data =
     (truthy (d_content data) \<or> d_file data \<noteq> None \<or> d_code data \<noteq> None)"

text \<open>The project the socket handlers find for a user and a project id, if any.\<close>

definition accessible_project :: "db \<Rightarrow> user \<Rightarrow> oid \<Rightarrow> project option" where
  "accessible_project d u projectId =
     (case u_company u of
        None \<Rightarrow> None
      | Some cid \<Rightarrow> find (socket_project_query u cid projectId) (projects d))"

text \<open>
  The payload names no chat-room, or it names the chat-room of the project, which is
  a room of its own (not the primary room of the payload's project).
\<close>

definition names_project_room :: "send_data \<Rightarrow> project \<Rightarrow> bool" where
  "names_project_room data proj =
     (if truthy (d_chatRoom data)
      then d_chatRoom data = p_chatRoom proj
           \<and> the (p_chatRoom proj) \<noteq> project_room (d_projectId data)
      else True)"

section \<open>A company with one project and one task\<close>

definition company1 :: oid where
  "company1 = ''c0c0c0c0c0c0c0c0c0c0c001''"

definition team1 :: oid where
  "team1 = ''7ea000000000000000000001''"

definition team2 :: oid where
  "team2 = ''7ea000000000000000000002''"

definition alice :: user where
  "alice = \<lparr>u_id = ''a11ce0000000000000000001'', u_name = ''Alice'',
     u_email = ''alice@example.com'', u_avatar = None, u_role = employee,
     u_company = Some company1, u_teams = [team1], u_isActive = True\<rparr>"

definition bob :: user where
  "bob = \<lparr>u_id = ''b0b000000000000000000002'', u_name = ''Bob'',
     u_email = ''bob@example.com'', u_avatar = None, u_role = employee,
     u_company = Some company1, u_teams = [team1], u_isActive = True\<rparr>"

definition carol :: user where
  "carol = \<lparr>u_id = ''ca4010000000000000000003'', u_name = ''Carol'',
     u_email = ''carol@example.com'', u_avatar = None, u_role = bug_fixer,
     u_company = Some company1, u_teams = [team1], u_isActive = True\<rparr>"

text \<open>Dave works for the same company, in another team, and is on no project.\<close>

definition dave :: user where
  "dave = \<lparr>u_id = ''da7e00000000000000000004'', u_name = ''Dave'',
     u_email = ''dave@example.com'', u_avatar = None, u_role = employee,
     u_company = Some company1, u_teams = [team2], u_isActive = True\<rparr>"

definition project1 :: project where
  "project1 = \<lparr>p_id = ''f00000000000000000000001'', p_company = company1,
     p_team = team1, p_members = [u_id alice, u_id bob, u_id carol],
     p_chatRoom = Some ''project_f00000000000000000000001_1700000000000'',
     p_isActive = True\<rparr>"

definition task1 :: task where
  "task1 = \<lparr>t_id = ''7a5000000000000000000001'', title = ''Fix login'',
     description = ''Login fails'', t_project = p_id project1, t_company = company1,
     assignedTo = u_id alice, createdBy = ''ad0000000000000000000009'',
     priority = ''medium'', deadline = 100, t_status = ''todo'', comments = [],
     delegationRequests = [], t_isActive = True\<rparr>"

definition db0 :: db where
  "db0 = \<lparr>users = [alice, bob, carol, dave], projects = [project1], tasks = [task1],
     chatMessages = []\<rparr>"

definition rid1 :: oid where
  "rid1 = ''4e0000000000000000000001''"

definition rid2 :: oid where
  "rid2 = ''4e0000000000000000000002''"

text \<open>Alice has asked Bob to take the task over.\<close>

definition db_asked :: db where
  "db_asked = foldl step db0 [Delegate alice (t_id task1) (u_id bob) ''vacation'' rid1 1]"

text \<open>Bob has accepted.\<close>

definition db_accepted :: db where
  "db_accepted = foldl step db0
     [Delegate alice (t_id task1) (u_id bob) ''vacation'' rid1 1,
      Resolve bob rid1 ''accept'']"

text \<open>Bob has declined, and Alice has asked Carol instead.\<close>

definition db_second :: db where
  "db_second = foldl step db0
     [Delegate alice (t_id task1) (u_id bob) ''vacation'' rid1 1,
      Resolve bob rid1 ''reject'',
      Delegate alice (t_id task1) (u_id carol) ''vacation'' rid2 2]"

text \<open>
  Alice sends two create requests, to Bob and to Carol; both handlers have read the
  store \<open>db0\<close> before either saves, then both save.
\<close>

definition db_raced :: db where
  "db_raced =
     push_request (t_id task1) (new_request alice (u_id carol) ''vacation'' rid2 2)
       (push_request (t_id task1) (new_request alice (u_id bob) ''vacation'' rid1 1) db0)"

text \<open>Sockets of Alice, Bob and Dave; Bob has joined the project's rooms.\<close>

definition sock_alice :: socket where
  "sock_alice = \<lparr>sock_id = 1, sock_user = alice\<rparr>"

definition sock_bob :: socket where
  "sock_bob = \<lparr>sock_id = 2, sock_user = bob\<rparr>"

definition sock_dave :: socket where
  "sock_dave = \<lparr>sock_id = 4, sock_user = dave\<rparr>"

definition no_rooms :: rooms where
  "no_rooms = (\<lambda>r. {})"

definition rooms_bob :: rooms where
  "rooms_bob = fst (join_project db0 no_rooms sock_bob (p_id project1))"

definition mid1 :: oid where
  "mid1 = ''5e0000000000000000000001''"

text \<open>A text message of Alice, and the store that holds it.\<close>

definition hello :: chat_message where
  "hello = \<lparr>m_id = mid1, m_project = p_id project1, m_task = None, m_sender = u_id alice,
     m_content = Some ''hello'', messageType = ''text'', m_file = None, m_code = None,
     isEdited = False, m_createdAt = 5\<rparr>"

definition db_chat :: db where
  "db_chat = db0\<lparr>chatMessages := [hello]\<rparr>"

text \<open>Payloads of \<^verbatim>\<open>send-message\<close>: a text, with and without the chat-room named.\<close>

definition hello_data :: send_data where
  "hello_data = \<lparr>d_projectId = p_id project1, d_chatRoom = None, d_taskId = None,
     d_content = Some ''hello'', d_messageType = Some ''text'', d_file = None,
     d_code = None\<rparr>"

definition hello_room_data :: send_data where
  "hello_room_data = hello_data\<lparr>d_chatRoom := p_chatRoom project1\<rparr>"

text \<open>A text and a code snippet in one payload that names no message type.\<close>

definition snippet :: code_snippet where
  "snippet = \<lparr>c_language = ''js'', c_content = ''let x = 1''\<rparr>"

definition both_data :: send_data where
  "both_data = \<lparr>d_projectId = p_id project1, d_chatRoom = None, d_taskId = None,
     d_content = Some ''see this'', d_messageType = None, d_file = None,
     d_code = Some snippet\<rparr>"

definition both_message :: chat_message where
  "both_message = \<lparr>m_id = mid1, m_project = p_id project1, m_task = None,
     m_sender = u_id alice, m_content = Some ''see this'', messageType = ''text'',
     m_file = None, m_code = Some snippet, isEdited = False, m_createdAt = 5\<rparr>"

text \<open>A payload with the project only.\<close>

definition empty_data :: send_data where
  "empty_data = \<lparr>d_projectId = p_id project1, d_chatRoom = None, d_taskId = None,
     d_content = None, d_messageType = None, d_file = None, d_code = None\<rparr>"

definition empty_message :: chat_message where
  "empty_message = \<lparr>m_id = mid1, m_project = p_id project1, m_task = None,
     m_sender = u_id alice, m_content = None, messageType = ''text'', m_file = None,
     m_code = None, isEdited = False, m_createdAt = 5\<rparr>"

section \<open>Lemmas on the delegation routes\<close>

lemma find_SomeD: "find P xs = Some x \<Longrightarrow> x \<in> set xs \<and> P x"
  by (induction xs) (auto split: if_splits)

lemma js_find_existing_None:
  "js_find existing_request_test rs = Inr None \<Longrightarrow>
   filter (\<lambda>r. r_status r = pending) rs = []"
  by (induction rs)
    (auto simp: existing_request_test_def request_user_def split: if_splits)

lemma js_find_existing_cases:
  "js_find existing_request_test rs =
     (if list_ex (\<lambda>r. r_status r = pending) rs then Inl TypeError else Inr None)"
  by (induction rs) (auto simp: existing_request_test_def request_user_def)

lemma filter_set_request_status:
  "s \<noteq> pending \<Longrightarrow>
   length (filter (\<lambda>r. r_status r = pending \<and> fromUser r = u) (set_request_status rid s rs))
     \<le> length (filter (\<lambda>r. r_status r = pending \<and> fromUser r = u) rs)"
  by (induction rs) auto

lemma pending_unique_save:
  assumes "pending_unique d" and "\<forall>u. length (pending_from u t) \<le> 1"
  shows "pending_unique (save_task t d)"
  using assms by (auto simp: pending_unique_def save_task_def)

lemma delegate_preserves:
  assumes "pending_unique d"
  shows "pending_unique (snd (delegate d caller taskId toUserId reason_in newId now))"
proof -
  have new: "\<forall>u. length (pending_from u
                 (task\<lparr>delegationRequests := delegationRequests task @ [r]\<rparr>)) \<le> 1"
    if "js_find existing_request_test (delegationRequests task) = Inr None"
    for task :: task and r
  proof -
    have "filter (\<lambda>r. r_status r = pending) (delegationRequests task) = []"
      using that by (rule js_find_existing_None)
    then have "filter (\<lambda>r. r_status r = pending \<and> fromUser r = u)
                 (delegationRequests task) = []" for u
      by (auto simp: filter_empty_conv)
    then show ?thesis by (simp add: pending_from_def)
  qed
  show ?thesis
    using assms
    by (auto simp: delegate_def split: option.splits sum.splits
          intro!: pending_unique_save new)
qed

lemma resolve_shape:
  "snd (resolve d caller requestId action) = d \<or>
   (\<exists>task s a. task \<in> set (tasks d) \<and> s \<noteq> pending \<and>
      snd (resolve d caller requestId action) =
        save_task (task\<lparr>delegationRequests :=
                           set_request_status requestId s (delegationRequests task),
                         assignedTo := a\<rparr>) d)"
proof (cases "code (fst (resolve d caller requestId action)) = 200")
  case False
  then show ?thesis
    by (auto simp: resolve_def split: option.splits if_splits)
next
  case True
  then obtain cid task where
    t: "find (request_task_query requestId (u_id caller) cid) (tasks d) = Some task"
    and res: "snd (resolve d caller requestId action) =
       save_task (task\<lparr>delegationRequests :=
                     set_request_status requestId
                       (if action = ''accept'' then accepted else rejected)
                       (delegationRequests task),
                   assignedTo := (if action = ''accept'' then u_id caller
                                  else assignedTo task)\<rparr>) d"
    by (auto simp: resolve_def split: option.splits if_splits)
  from t have "task \<in> set (tasks d)" by (auto dest: find_SomeD)
  moreover have "(if action = ''accept'' then accepted else rejected) \<noteq> pending"
    by simp
  ultimately show ?thesis using res by blast
qed

lemma resolve_preserves:
  assumes "pending_unique d"
  shows "pending_unique (snd (resolve d caller requestId action))"
proof -
  consider "snd (resolve d caller requestId action) = d"
    | task s a where "task \<in> set (tasks d)" "s \<noteq> pending"
      "snd (resolve d caller requestId action) =
        save_task (task\<lparr>delegationRequests :=
                           set_request_status requestId s (delegationRequests task),
                         assignedTo := a\<rparr>) d"
    using resolve_shape [of d caller requestId action] by blast
  then show ?thesis
  proof cases
    case 1
    then show ?thesis using assms by simp
  next
    case 2
    have "length (pending_from u
            (task\<lparr>delegationRequests :=
                    set_request_status requestId s (delegationRequests task),
                  assignedTo := a\<rparr>)) \<le> 1" for u
    proof -
      have "length (pending_from u task) \<le> 1"
        using assms 2(1) by (simp add: pending_unique_def)
      with filter_set_request_status [OF 2(2), of u requestId "delegationRequests task"]
      show ?thesis by (simp add: pending_from_def)
    qed
    then show ?thesis
      using assms 2(3) by (simp add: pending_unique_save)
  qed
qed

lemma step_preserves: "pending_unique d \<Longrightarrow> pending_unique (step d op)"
  by (cases op) (simp_all add: delegate_preserves resolve_preserves)

lemmas example_defs =
  company1_def team1_def team2_def alice_def bob_def carol_def dave_def project1_def
  task1_def db0_def rid1_def rid2_def

lemmas route_defs =
  delegate_def resolve_def request_task_query_def save_task_def is_mongo_id_def
  is_hexadecimal_def is_hex_def trim_def is_space1_def is_space2_def is_space3_def
  validator_length_def is_continuation_def existing_request_test_def request_user_def

lemmas chat_defs =
  socket_project_query_def chat_project_query_def truthy_def populate_sender_def get_chat_def
  join_def project_room_def join_project_def build_message_data_def path_truthy_def
  content_required_def ChatMessage_create_def send_message_def typing_def stop_typing_def
  payload_kinds_def via_room_def Let_def

lemmas chat_example_defs =
  sock_alice_def sock_bob_def sock_dave_def no_rooms_def mid1_def hello_def db_chat_def
  hello_data_def hello_room_data_def snippet_def both_data_def both_message_def
  empty_data_def empty_message_def

lemma db_asked_eq:
  "db_asked = db0\<lparr>tasks := [task1\<lparr>delegationRequests :=
      [\<lparr>r_id = rid1, fromUser = u_id alice, toUser = u_id bob, reason = ''vacation'',
        r_status = pending, createdAt = 1\<rparr>]\<rparr>]\<rparr>"
  by (simp add: db_asked_def route_defs example_defs)

lemma db_accepted_eq:
  "db_accepted = db0\<lparr>tasks := [task1\<lparr>delegationRequests :=
      [\<lparr>r_id = rid1, fromUser = u_id alice, toUser = u_id bob, reason = ''vacation'',
        r_status = accepted, createdAt = 1\<rparr>], assignedTo := u_id bob\<rparr>]\<rparr>"
  by (simp add: db_accepted_def route_defs example_defs)

lemma db_second_eq:
  "db_second = db0\<lparr>tasks := [task1\<lparr>delegationRequests :=
      [\<lparr>r_id = rid1, fromUser = u_id alice, toUser = u_id bob, reason = ''vacation'',
        r_status = rejected, createdAt = 1\<rparr>,
       \<lparr>r_id = rid2, fromUser = u_id alice, toUser = u_id carol, reason = ''vacation'',
        r_status = pending, createdAt = 2\<rparr>]\<rparr>]\<rparr>"
  by (simp add: db_second_def route_defs example_defs)

section \<open>Creating a delegation request\<close>

text \<open>
  C2 (the duplicate check).  Alice is the assignee of the task and already has a pending
  request to Bob on it (\<open>db_asked\<close>, reached from \<open>db0\<close> through the route itself).
  She asks again, with a valid body: the callback of the duplicate check reads
  \<^verbatim>\<open>req.user.id\<close> on the pending request and throws, so the route answers with the
  500 reply of its \<^verbatim>\<open>catch\<close>, not with the 400 reply and its message
  \<^verbatim>\<open>You already have a pending delegation request for this task\<close>, which no input
  reaches.  The stored requests are unchanged.
\<close>

theorem delegate_duplicate_is_server_error:
  "map (\<lambda>r. (fromUser r, r_status r)) (concat (map delegationRequests (tasks db_asked)))
     = [(u_id alice, pending)] \<and>
   delegate db_asked alice (t_id task1) (u_id bob) ''still on vacation'' rid2 2 =
     (Json 500 ''Server error while creating delegation request'', db_asked)"
  by (simp add: db_asked_eq) (simp add: route_defs example_defs)

text \<open>
  No input at all reaches the route's own reply to a duplicate: whenever the duplicate
  check meets a pending request it throws.
\<close>

theorem delegate_never_reports_duplicate:
  "fst (delegate d caller taskId toUserId reason_in newId now) \<noteq>
     Json 400 ''You already have a pending delegation request for this task''"
  by (simp add: delegate_def js_find_existing_cases split: option.splits)

text \<open>
  What a created request is: a 200 reply means that the caller is the assignee of the
  active task of that id in the caller's company, the target is a member of the task's
  project and an active user of the caller's company, the task had no pending request,
  and the store differs by one new pending request at the end of the task's list;
  the assignee and every other field of the task are as before.
\<close>

theorem delegate_success_effect:
  assumes "code (fst (delegate d caller taskId toUserId reason_in newId now)) = 200"
  shows "\<exists>t p.
     t \<in> set (tasks d) \<and> t_id t = taskId \<and> assignedTo t = u_id caller \<and> t_isActive t \<and>
     u_company caller = Some (t_company t) \<and>
     p \<in> set (projects d) \<and> p_id p = t_project t \<and> toUserId \<in> set (p_members p) \<and>
     list_ex (\<lambda>u. u_id u = toUserId \<and> u_company u = u_company caller \<and> u_isActive u) (users d) \<and>
     list_all (\<lambda>r. r_status r \<noteq> pending) (delegationRequests t) \<and>
     delegate d caller taskId toUserId reason_in newId now =
       (Json 200 ''Delegation request sent successfully'',
        save_task
          (t\<lparr>delegationRequests := delegationRequests t @
             [\<lparr>r_id = newId, fromUser = u_id caller, toUser = toUserId,
               reason = trim (trim reason_in), r_status = pending, createdAt = now\<rparr>]\<rparr>) d)"
proof -
  from assms obtain cid t p u where
    c: "u_company caller = Some cid"
    and t: "find (\<lambda>t. t_id t = taskId \<and> assignedTo t = u_id caller
                        \<and> t_company t = cid \<and> t_isActive t) (tasks d) = Some t"
    and p: "find (\<lambda>p. p_id p = t_project t) (projects d) = Some p"
    and m: "toUserId \<in> set (p_members p)"
    and u: "find (\<lambda>u. u_id u = toUserId \<and> u_company u = Some cid \<and> u_isActive u) (users d) = Some u"
    and n: "\<not> list_ex (\<lambda>r. r_status r = pending) (delegationRequests t)"
    and res: "delegate d caller taskId toUserId reason_in newId now =
       (Json 200 ''Delegation request sent successfully'',
        save_task
          (t\<lparr>delegationRequests := delegationRequests t @
             [\<lparr>r_id = newId, fromUser = u_id caller, toUser = toUserId,
               reason = trim (trim reason_in), r_status = pending, createdAt = now\<rparr>]\<rparr>) d)"
    by (auto simp: delegate_def js_find_existing_cases split: option.splits if_splits)
  from t have t': "t \<in> set (tasks d)" "t_id t = taskId" "assignedTo t = u_id caller"
    "t_company t = cid" "t_isActive t"
    by (auto dest: find_SomeD)
  from p have p': "p \<in> set (projects d)" "p_id p = t_project t" by (auto dest: find_SomeD)
  from u c have u': "list_ex (\<lambda>u. u_id u = toUserId \<and> u_company u = u_company caller \<and> u_isActive u) (users d)"
    by (auto dest!: find_SomeD simp: list_ex_iff)
  from n have n': "list_all (\<lambda>r. r_status r \<noteq> pending) (delegationRequests t)"
    by (auto simp: list_ex_iff list_all_iff)
  from t' p' m u' n' c res have
    "t \<in> set (tasks d) \<and> t_id t = taskId \<and> assignedTo t = u_id caller \<and> t_isActive t \<and>
     u_company caller = Some (t_company t) \<and>
     p \<in> set (projects d) \<and> p_id p = t_project t \<and> toUserId \<in> set (p_members p) \<and>
     list_ex (\<lambda>u. u_id u = toUserId \<and> u_company u = u_company caller \<and> u_isActive u) (users d) \<and>
     list_all (\<lambda>r. r_status r \<noteq> pending) (delegationRequests t) \<and>
     delegate d caller taskId toUserId reason_in newId now =
       (Json 200 ''Delegation request sent successfully'',
        save_task
          (t\<lparr>delegationRequests := delegationRequests t @
             [\<lparr>r_id = newId, fromUser = u_id caller, toUser = toUserId,
               reason = trim (trim reason_in), r_status = pending, createdAt = now\<rparr>]\<rparr>) d)"
    by simp
  then show ?thesis by blast
qed

theorem delegate_success_effect_example:
  "code (fst (delegate db0 alice (t_id task1) (u_id bob) ''vacation'' rid1 1)) = 200 \<and>
   snd (delegate db0 alice (t_id task1) (u_id bob) ''vacation'' rid1 1) = db_asked"
proof -
  have r: "delegate db0 alice (t_id task1) (u_id bob) ''vacation'' rid1 1 =
     (Json 200 ''Delegation request sent successfully'', db_asked)"
    by (simp add: db_asked_eq) (simp add: route_defs example_defs)
  then have h: "code (fst (delegate db0 alice (t_id task1) (u_id bob) ''vacation'' rid1 1)) = 200"
    by simp
  from delegate_success_effect [OF h] r h show ?thesis by simp
qed

section \<open>Resolving a delegation request\<close>

text \<open>
  C3 (only the addressee resolves).  In \<open>db_second\<close> the task holds Alice's request
  \<open>rid1\<close> to Bob, which Bob rejected, and her pending request \<open>rid2\<close> to Carol.  Bob
  resolves \<open>rid2\<close>: the task query asks for some request with that id and some request
  addressed to the caller, \<open>rid1\<close> answers the second condition, and the route accepts
  Carol's request on Bob's word.
\<close>

theorem resolve_by_other_addressee_succeeds:
  "resolve db_second bob rid2 ''accept'' =
   (Json 200 ''Request accepted successfully'',
    db0\<lparr>tasks := [task1\<lparr>delegationRequests :=
      [\<lparr>r_id = rid1, fromUser = u_id alice, toUser = u_id bob, reason = ''vacation'',
        r_status = rejected, createdAt = 1\<rparr>,
       \<lparr>r_id = rid2, fromUser = u_id alice, toUser = u_id carol, reason = ''vacation'',
        r_status = accepted, createdAt = 2\<rparr>], assignedTo := u_id bob\<rparr>]\<rparr>)"
  by (simp add: db_second_eq) (simp add: route_defs example_defs)

text \<open>
  C4 (accepting reassigns to the addressee).  On the same input the task's assignee
  after the accept is the caller, Bob, while the accepted request \<open>rid2\<close> is addressed
  to Carol.
\<close>

theorem accept_assigns_caller_not_addressee:
  "map assignedTo (tasks (snd (resolve db_second bob rid2 ''accept''))) = [u_id bob] \<and>
   map toUser (filter (\<lambda>r. r_id r = rid2) (concat (map delegationRequests (tasks db_second))))
     = [u_id carol] \<and>
   u_id bob \<noteq> u_id carol"
  by (simp add: db_second_eq) (simp add: route_defs example_defs)

text \<open>
  C9 as stated: every resolve call on a request that is no longer pending fails with the
  already-processed error.  Dave, to whom no request of the task is addressed, resolves
  the request Bob has accepted: the task query finds nothing for him and the reply is
  the 404 \<^verbatim>\<open>Delegation request not found\<close>.
\<close>

theorem resolve_non_pending_not_found:
  "no_pending_with_id rid1 db_accepted \<and>
   resolve db_accepted dave rid1 ''accept'' =
     (Json 404 ''Delegation request not found'', db_accepted)"
  by (simp add: db_accepted_eq) (simp add: no_pending_with_id_def route_defs example_defs)

text \<open>
  C9, amended.  When no request with the given id is pending, a resolve call by any
  caller with any action fails and leaves the store (the task, its assignee, all its
  delegation requests) as it was.  The reply is the already-processed error exactly
  when the action is accept or reject and the task query finds a task for the caller
  (a task of the caller's company, active, holding a request with that id and a request
  addressed to the caller).
\<close>

theorem resolve_non_pending_unchanged:
  "no_pending_with_id requestId d \<Longrightarrow>
   snd (resolve d caller requestId action) = d \<and>
   code (fst (resolve d caller requestId action)) \<noteq> 200 \<and>
   (fst (resolve d caller requestId action) = Json 400 ''Request has already been processed''
      \<longleftrightarrow>
    (action = ''accept'' \<or> action = ''reject'') \<and>
    (\<exists>cid. u_company caller = Some cid \<and>
       find (request_task_query requestId (u_id caller) cid) (tasks d) \<noteq> None))"
proof -
  assume np: "no_pending_with_id requestId d"
  show ?thesis
  proof (cases "action = ''accept'' \<or> action = ''reject''")
    case False
    then show ?thesis by (simp add: resolve_def)
  next
    case act: True
    show ?thesis
    proof (cases "u_company caller")
      case None
      with act show ?thesis by (simp add: resolve_def)
    next
      case (Some cid)
      show ?thesis
      proof (cases "find (request_task_query requestId (u_id caller) cid) (tasks d)")
        case None
        with act Some show ?thesis by (simp add: resolve_def)
      next
        case found: (Some t)
        then have t: "t \<in> set (tasks d)"
          and ex: "list_ex (\<lambda>r. r_id r = requestId) (delegationRequests t)"
          by (auto dest!: find_SomeD simp: request_task_query_def)
        from ex obtain r where
          r: "find (\<lambda>r. r_id r = requestId) (delegationRequests t) = Some r"
          by (cases "find (\<lambda>r. r_id r = requestId) (delegationRequests t)")
            (auto simp: find_None_iff list_ex_iff)
        then have "r \<in> set (delegationRequests t)" "r_id r = requestId"
          by (auto dest: find_SomeD)
        with t np have "r_status r \<noteq> pending"
          by (auto simp: no_pending_with_id_def list_all_iff)
        with act Some found r show ?thesis by (simp add: resolve_def)
      qed
    qed
  qed
qed

theorem resolve_non_pending_unchanged_witness:
  "no_pending_with_id rid1 db_accepted \<and>
   resolve db_accepted bob rid1 ''accept'' =
     (Json 400 ''Request has already been processed'', db_accepted)"
proof -
  have h: "no_pending_with_id rid1 db_accepted"
    by (simp add: db_accepted_eq) (simp add: no_pending_with_id_def example_defs)
  have c: "u_company bob = Some company1 \<and>
      find (request_task_query rid1 (u_id bob) company1) (tasks db_accepted) \<noteq> None"
    by (simp add: db_accepted_eq) (simp add: request_task_query_def example_defs)
  show ?thesis
    using h c resolve_non_pending_unchanged [OF h, of bob "''accept''"]
    by (auto simp: prod_eq_iff)
qed

lemma set_request_status_split:
  "find (\<lambda>r. r_id r = rid) rs = Some r \<Longrightarrow>
   \<exists>pre post. rs = pre @ r # post \<and> list_all (\<lambda>x. r_id x \<noteq> rid) pre \<and>
     set_request_status rid s rs = pre @ r\<lparr>r_status := s\<rparr> # post"
proof (induction rs)
  case Nil
  then show ?case by simp
next
  case (Cons a rs)
  show ?case
  proof (cases "r_id a = rid")
    case True
    with Cons.prems have "a = r" by simp
    with True have "a # rs = [] @ r # rs \<and> list_all (\<lambda>x. r_id x \<noteq> rid) [] \<and>
      set_request_status rid s (a # rs) = [] @ r\<lparr>r_status := s\<rparr> # rs" by simp
    then show ?thesis by blast
  next
    case False
    with Cons.prems have "find (\<lambda>r. r_id r = rid) rs = Some r" by simp
    from Cons.IH [OF this] obtain pre post where
      "rs = pre @ r # post" "list_all (\<lambda>x. r_id x \<noteq> rid) pre"
      "set_request_status rid s rs = pre @ r\<lparr>r_status := s\<rparr> # post" by blast
    with False have "a # rs = (a # pre) @ r # post \<and> list_all (\<lambda>x. r_id x \<noteq> rid) (a # pre) \<and>
      set_request_status rid s (a # rs) = (a # pre) @ r\<lparr>r_status := s\<rparr> # post" by simp
    then show ?thesis by blast
  qed
qed

text \<open>
  What a resolved request is: a 200 reply means that the task found holds a request
  addressed to the caller, that the first request \<open>r\<close> of the given id in it was
  pending, and that the store differs by the status of \<open>r\<close> (accepted or rejected, as
  the action says) and, for an accept, by the assignee, who is now the caller; every
  other request of the task and every other field are as before.  A reject leaves the
  assignee as it was.
\<close>

theorem resolve_success_effect:
  assumes "code (fst (resolve d caller requestId action)) = 200"
  shows "\<exists>t pre r post.
     t \<in> set (tasks d) \<and> t_isActive t \<and> u_company caller = Some (t_company t) \<and>
     list_ex (\<lambda>x. toUser x = u_id caller) (delegationRequests t) \<and>
     delegationRequests t = pre @ r # post \<and> list_all (\<lambda>x. r_id x \<noteq> requestId) pre \<and>
     r_id r = requestId \<and> r_status r = pending \<and>
     resolve d caller requestId action =
       (Json 200 (''Request '' @ action @ ''ed successfully''),
        save_task
         (t\<lparr>delegationRequests :=
               pre @ r\<lparr>r_status := (if action = ''accept'' then accepted else rejected)\<rparr> # post,
             assignedTo := (if action = ''accept'' then u_id caller else assignedTo t)\<rparr>) d)"
proof -
  from assms obtain cid t r where
    c: "u_company caller = Some cid" 
    and t: "find (request_task_query requestId (u_id caller) cid) (tasks d) = Some t"
    and r: "find (\<lambda>r. r_id r = requestId) (delegationRequests t) = Some r"
    and p: "r_status r = pending"
    and res: "resolve d caller requestId action =
       (Json 200 (''Request '' @ action @ ''ed successfully''),
        save_task
         (t\<lparr>delegationRequests := set_request_status requestId
                       (if action = ''accept'' then accepted else rejected)
                       (delegationRequests t),
             assignedTo := (if action = ''accept'' then u_id caller else assignedTo t)\<rparr>) d)"
    by (auto simp: resolve_def split: option.splits if_splits)
  from t have tq: "t \<in> set (tasks d)" "request_task_query requestId (u_id caller) cid t"
    by (auto dest: find_SomeD)
  from r have rid: "r_id r = requestId" by (auto dest: find_SomeD)
  from set_request_status_split [OF r, of "if action = ''accept'' then accepted else rejected"]
  obtain pre post where
    sp: "delegationRequests t = pre @ r # post" "list_all (\<lambda>x. r_id x \<noteq> requestId) pre"
    "set_request_status requestId (if action = ''accept'' then accepted else rejected)
       (delegationRequests t) =
     pre @ r\<lparr>r_status := (if action = ''accept'' then accepted else rejected)\<rparr> # post"
    by blast
  from tq c have "t_isActive t" "u_company caller = Some (t_company t)"
    "list_ex (\<lambda>x. toUser x = u_id caller) (delegationRequests t)"
    by (auto simp: request_task_query_def)
  with tq(1) sp rid p res have
    "t \<in> set (tasks d) \<and> t_isActive t \<and> u_company caller = Some (t_company t) \<and>
     list_ex (\<lambda>x. toUser x = u_id caller) (delegationRequests t) \<and>
     delegationRequests t = pre @ r # post \<and> list_all (\<lambda>x. r_id x \<noteq> requestId) pre \<and>
     r_id r = requestId \<and> r_status r = pending \<and>
     resolve d caller requestId action =
       (Json 200 (''Request '' @ action @ ''ed successfully''),
        save_task
         (t\<lparr>delegationRequests :=
               pre @ r\<lparr>r_status := (if action = ''accept'' then accepted else rejected)\<rparr> # post,
             assignedTo := (if action = ''accept'' then u_id caller else assignedTo t)\<rparr>) d)"
    by simp
  then show ?thesis by blast
qed

theorem resolve_success_effect_example:
  "code (fst (resolve db_asked bob rid1 ''accept'')) = 200 \<and>
   resolve db_asked bob rid1 ''accept'' = (Json 200 ''Request accepted successfully'', db_accepted)"
proof -
  have r: "resolve db_asked bob rid1 ''accept'' = (Json 200 ''Request accepted successfully'', db_accepted)"
    by (simp add: db_asked_eq db_accepted_eq) (simp add: route_defs example_defs)
  then have h: "code (fst (resolve db_asked bob rid1 ''accept'')) = 200" by simp
  from resolve_success_effect [OF h] r h show ?thesis by blast
qed

section \<open>At most one pending request per task and requesting user\<close>

text \<open>
  Handled as a whole, \<open>delegate\<close> is its two parts one after the other, on a store
  whose tasks have distinct ids.
\<close>

lemma delegate_in_parts:
  assumes "distinct (map t_id (tasks d))"
  shows "delegate d caller taskId toUserId reason_in newId now =
     (case delegate_read d caller taskId toUserId reason_in of
        Inl reply \<Rightarrow> (reply, d)
      | Inr task \<Rightarrow>
          (Json 200 ''Delegation request sent successfully'',
           push_request (t_id task) (new_request caller toUserId reason_in newId now) d))"
proof -
  have same: "save_task (t\<lparr>delegationRequests := delegationRequests t @ [r]\<rparr>) d =
      push_request (t_id t) r d" if "t \<in> set (tasks d)" for t r
  proof -
    have "x = t" if "x \<in> set (tasks d)" "t_id x = t_id t" for x
      using assms \<open>t \<in> set (tasks d)\<close> that by (meson distinct_map inj_onD)
    then have "map (\<lambda>x. if t_id x = t_id t
                        then t\<lparr>delegationRequests := delegationRequests t @ [r]\<rparr> else x)
                 (tasks d) =
               map (\<lambda>x. if t_id x = t_id t
                        then x\<lparr>delegationRequests := delegationRequests x @ [r]\<rparr> else x)
                 (tasks d)"
      by (intro map_cong) auto
    then show ?thesis
      by (simp add: save_task_def push_request_def)
  qed
  show ?thesis
    by (auto simp: delegate_def delegate_read_def new_request_def same
        split: option.splits sum.splits dest: find_SomeD)
qed

text \<open>
  C5 as stated: an invariant of every reachable state.  Alice, the assignee, sends two
  create requests for her task, to Bob and to Carol.  Both handlers read the store
  before either saves: each finds the task without a pending request and passes the
  duplicate check, and each then pushes its request.  The task holds two pending
  requests from Alice.
\<close>

theorem interleaved_creates_two_pending:
  "delegate_read db0 alice (t_id task1) (u_id bob) ''vacation'' = Inr task1 \<and>
   delegate_read db0 alice (t_id task1) (u_id carol) ''vacation'' = Inr task1 \<and>
   map (\<lambda>r. (fromUser r, toUser r, r_status r))
     (concat (map delegationRequests (tasks db_raced))) =
     [(u_id alice, u_id bob, pending), (u_id alice, u_id carol, pending)] \<and>
   map (\<lambda>t. length (pending_from (u_id alice) t)) (tasks db_raced) = [2] \<and>
   \<not> pending_unique db_raced"
proof -
  have r: "delegate_read db0 alice (t_id task1) (u_id bob) ''vacation'' = Inr task1"
    "delegate_read db0 alice (t_id task1) (u_id carol) ''vacation'' = Inr task1"
    by (simp_all add: delegate_read_def route_defs example_defs)
  have t: "tasks db_raced =
      [task1\<lparr>delegationRequests :=
         [new_request alice (u_id bob) ''vacation'' rid1 1,
          new_request alice (u_id carol) ''vacation'' rid2 2]\<rparr>]"
    by (simp add: db_raced_def push_request_def db0_def task1_def)
  have n: "map (\<lambda>t. length (pending_from (u_id alice) t)) (tasks db_raced) = [2]"
    by (simp add: t pending_from_def new_request_def)
  have "\<not> pending_unique db_raced"
  proof
    assume "pending_unique db_raced"
    then have "list_all (\<lambda>k. k \<le> 1)
        (map (\<lambda>t. length (pending_from (u_id alice) t)) (tasks db_raced))"
      by (simp add: pending_unique_def list_all_iff)
    with n show False by simp
  qed
  moreover have "map (\<lambda>r. (fromUser r, toUser r, r_status r))
     (concat (map delegationRequests (tasks db_raced))) =
     [(u_id alice, u_id bob, pending), (u_id alice, u_id carol, pending)]"
    by (simp add: t new_request_def)
  ultimately show ?thesis using r n by blast
qed

text \<open>
  C5, amended.  Under sequential handling (each request handled to its end before the
  next begins), in every store reached by delegation operations (create request,
  accept, reject, in any number and order, by any callers) from a store in which every
  task has at most one pending request per requesting user (in particular from one
  whose tasks have no requests yet, as \<^verbatim>\<open>Task.create\<close> leaves them), every task has
  at most one pending request per requesting user: each operation preserves this.
\<close>

theorem pending_unique_reachable:
  "pending_unique d \<Longrightarrow> pending_unique (foldl step d ops)"
  by (induction ops arbitrary: d) (simp_all add: step_preserves)

lemma fresh_store_pending_unique:
  "list_all (\<lambda>t. delegationRequests t = []) (tasks d) \<Longrightarrow> pending_unique d"
  by (simp add: pending_unique_def pending_from_def list_all_iff)

theorem pending_unique_reachable_witness:
  "pending_unique db0 \<and> pending_unique db_second"
proof -
  have h: "pending_unique db0"
    by (simp add: pending_unique_def pending_from_def db0_def task1_def)
  show ?thesis
    unfolding db_second_def by (rule conjI [OF h pending_unique_reachable [OF h]])
qed

section \<open>A resolved request stays as it is\<close>

lemma settled_kept_refl: "settled_kept rs rs"
  by (simp add: settled_kept_def list_all_iff)

lemma settled_kept_trans:
  "settled_kept rs rs' \<Longrightarrow> settled_kept rs' rs'' \<Longrightarrow> settled_kept rs rs''"
  unfolding settled_kept_def list_all_iff
  by (metis atLeastLessThan_iff le_trans less_le_trans set_upt)

lemma settled_kept_append: "settled_kept rs (rs @ [r])"
  by (simp add: settled_kept_def list_all_iff nth_append)

lemma settled_kept_update:
  "r_status r = pending \<Longrightarrow> settled_kept (pre @ r # post) (pre @ r' # post)"
  by (auto simp: settled_kept_def list_all_iff nth_append nth_Cons split: nat.splits)

lemma db_settled_kept_refl: "db_settled_kept d d"
  by (simp add: db_settled_kept_def list_all2_same settled_kept_refl)

lemma db_settled_kept_trans:
  assumes "db_settled_kept d d'" and "db_settled_kept d' d''"
  shows "db_settled_kept d d''"
  using assms unfolding db_settled_kept_def
  by (rule list_all2_trans [rotated]) (auto intro: settled_kept_trans)

lemma db_settled_kept_save:
  assumes "distinct (map t_id (tasks d))" and "t \<in> set (tasks d)" and "t_id t' = t_id t"
    and "settled_kept (delegationRequests t) (delegationRequests t')"
  shows "db_settled_kept d (save_task t' d)"
proof -
  have "x = t" if "x \<in> set (tasks d)" "t_id x = t_id t" for x
    using assms(1,2) that by (meson distinct_map inj_onD)
  then show ?thesis
    using assms(3,4)
    by (auto simp: db_settled_kept_def save_task_def list_all2_map2 settled_kept_refl
        intro!: list_all2_same [THEN iffD2])
qed

lemma distinct_ids_save:
  "t_id t' = t_id t \<Longrightarrow> t \<in> set (tasks d) \<Longrightarrow> map t_id (tasks (save_task t' d)) = map t_id (tasks d)"
  by (auto simp: save_task_def)

lemma step_shape:
  "step d op = d \<or>
   (\<exists>t t'. t \<in> set (tasks d) \<and> t_id t' = t_id t \<and>
      settled_kept (delegationRequests t) (delegationRequests t') \<and> step d op = save_task t' d)"
proof (cases op)
  case (Delegate caller taskId toUserId reason_in newId now)
  show ?thesis
  proof (cases "code (fst (delegate d caller taskId toUserId reason_in newId now)) = 200")
    case True
    from delegate_success_effect [OF this] obtain t where
      "t \<in> set (tasks d)"
      "delegate d caller taskId toUserId reason_in newId now =
       (Json 200 ''Delegation request sent successfully'',
        save_task
          (t\<lparr>delegationRequests := delegationRequests t @
             [\<lparr>r_id = newId, fromUser = u_id caller, toUser = toUserId,
               reason = trim (trim reason_in), r_status = pending, createdAt = now\<rparr>]\<rparr>) d)"
      by blast
    with Delegate have "t \<in> set (tasks d) \<and>
      t_id (t\<lparr>delegationRequests := delegationRequests t @
             [\<lparr>r_id = newId, fromUser = u_id caller, toUser = toUserId,
               reason = trim (trim reason_in), r_status = pending, createdAt = now\<rparr>]\<rparr>) = t_id t \<and>
      settled_kept (delegationRequests t)
        (delegationRequests (t\<lparr>delegationRequests := delegationRequests t @
             [\<lparr>r_id = newId, fromUser = u_id caller, toUser = toUserId,
               reason = trim (trim reason_in), r_status = pending, createdAt = now\<rparr>]\<rparr>)) \<and>
      step d op = save_task (t\<lparr>delegationRequests := delegationRequests t @
             [\<lparr>r_id = newId, fromUser = u_id caller, toUser = toUserId,
               reason = trim (trim reason_in), r_status = pending, createdAt = now\<rparr>]\<rparr>) d"
      by (simp add: settled_kept_append)
    then show ?thesis by blast
  next
    case False
    then have "snd (delegate d caller taskId toUserId reason_in newId now) = d"
      by (auto simp: delegate_def split: option.splits sum.splits if_splits)
    with Delegate show ?thesis by simp
  qed
next
  case (Resolve caller requestId action)
  show ?thesis
  proof (cases "code (fst (resolve d caller requestId action)) = 200")
    case True
    from resolve_success_effect [OF this] obtain t pre r post where
      "t \<in> set (tasks d)" "delegationRequests t = pre @ r # post" "r_status r = pending"
      "resolve d caller requestId action =
       (Json 200 (''Request '' @ action @ ''ed successfully''),
        save_task
         (t\<lparr>delegationRequests :=
               pre @ r\<lparr>r_status := (if action = ''accept'' then accepted else rejected)\<rparr> # post,
             assignedTo := (if action = ''accept'' then u_id caller else assignedTo t)\<rparr>) d)"
      by blast
    with Resolve have "t \<in> set (tasks d) \<and>
      t_id (t\<lparr>delegationRequests :=
               pre @ r\<lparr>r_status := (if action = ''accept'' then accepted else rejected)\<rparr> # post,
             assignedTo := (if action = ''accept'' then u_id caller else assignedTo t)\<rparr>) = t_id t \<and>
      settled_kept (delegationRequests t)
        (delegationRequests (t\<lparr>delegationRequests :=
               pre @ r\<lparr>r_status := (if action = ''accept'' then accepted else rejected)\<rparr> # post,
             assignedTo := (if action = ''accept'' then u_id caller else assignedTo t)\<rparr>)) \<and>
      step d op = save_task (t\<lparr>delegationRequests :=
               pre @ r\<lparr>r_status := (if action = ''accept'' then accepted else rejected)\<rparr> # post,
             assignedTo := (if action = ''accept'' then u_id caller else assignedTo t)\<rparr>) d"
      by (simp add: settled_kept_update)
    then show ?thesis by blast
  next
    case False
    then have "snd (resolve d caller requestId action) = d"
      by (auto simp: resolve_def split: option.splits if_splits)
    with Resolve show ?thesis by simp
  qed
qed

lemma step_settled:
  assumes "distinct (map t_id (tasks d))"
  shows "distinct (map t_id (tasks (step d op))) \<and> db_settled_kept d (step d op)"
  using step_shape [of d op] assms
  by (auto simp: db_settled_kept_refl distinct_ids_save db_settled_kept_save)

text \<open>
  Accepted and rejected are final: in a store whose tasks have distinct ids, whatever
  delegation operations follow, every request that is accepted or rejected keeps its
  place in its task's list and all its fields, its status among them.
\<close>

theorem settled_requests_final:
  "distinct (map t_id (tasks d)) \<Longrightarrow> db_settled_kept d (foldl step d ops)"
proof (induction ops arbitrary: d)
  case Nil
  then show ?case by (simp add: db_settled_kept_refl)
next
  case (Cons op ops)
  from step_settled [OF Cons.prems, of op]
  have "distinct (map t_id (tasks (step d op)))" "db_settled_kept d (step d op)" by simp_all
  with Cons.IH [of "step d op"] show ?case
    by (auto intro: db_settled_kept_trans)
qed

theorem settled_requests_final_example:
  "distinct (map t_id (tasks db_accepted)) \<and>
   db_settled_kept db_accepted
     (foldl step db_accepted
        [Resolve bob rid1 ''reject'',
         Delegate bob (t_id task1) (u_id carol) ''handing over'' rid2 3,
         Resolve carol rid1 ''accept''])"
proof -
  have h: "distinct (map t_id (tasks db_accepted))"
    by (simp add: db_accepted_eq)
  from settled_requests_final [OF h] h show ?thesis by blast
qed

section \<open>Lemmas on the chat bridge\<close>

lemma rooms_bob_eq:
  "rooms_bob =
     (\<lambda>r. if r = the (p_chatRoom project1) \<or> r = project_room (p_id project1) then {2}
          else {})"
  by (auto simp add: rooms_bob_def chat_defs chat_example_defs example_defs fun_eq_iff)

text \<open>A send that stores a message went through every check of the handler.\<close>

lemma send_message_stored:
  assumes "chatMessages (fst (send_message g d sock data newId now)) = chatMessages d @ [m]"
  shows "ChatMessage_create g (build_message_data sock data) newId now = Inr m \<and>
         fst (send_message g d sock data newId now) =
           d\<lparr>chatMessages := chatMessages d @ [m]\<rparr> \<and>
         snd (send_message g d sock data newId now) =
           ToRoom (project_room (d_projectId data))
             (NewMessage
                (map_option (populate_sender (d\<lparr>chatMessages := chatMessages d @ [m]\<rparr>))
                   (find (\<lambda>x. m_id x = m_id m) (chatMessages d @ [m])))) #
           (if truthy (d_chatRoom data)
            then [ToRoom (the (d_chatRoom data))
              (NewMessage
                 (map_option (populate_sender (d\<lparr>chatMessages := chatMessages d @ [m]\<rparr>))
                    (find (\<lambda>x. m_id x = m_id m) (chatMessages d @ [m]))))]
            else [])"
  using assms
  by (auto simp: send_message_def Let_def split: option.splits sum.splits)

lemma create_fields:
  assumes "ChatMessage_create g md newId now = Inr m"
  shows "m = \<lparr>m_id = newId, m_project = md_project md, m_task = md_task md,
               m_sender = md_sender md, m_content = md_content md,
               messageType = md_messageType md, m_file = md_file md,
               m_code = md_code md, isEdited = False, m_createdAt = now\<rparr> \<and>
         md_messageType md \<in> {''text'', ''file'', ''code''}"
  using assms by (auto simp: ChatMessage_create_def split: if_splits)

lemma find_fresh:
  "list_all (\<lambda>x. f x \<noteq> k) xs \<Longrightarrow> f m = k \<Longrightarrow> find (\<lambda>x. f x = k) (xs @ [m]) = Some m"
  by (induction xs) auto

lemma find_weaker:
  "find P xs = Some x \<Longrightarrow> (\<And>y. P y \<Longrightarrow> Q y) \<Longrightarrow> find Q xs \<noteq> None"
  by (induction xs) (auto split: if_splits)

section \<open>Project access: realtime join and REST history\<close>

text \<open>
  C1 (access parity).  Dave is an employee of the project's company, not a member of
  the project, and in none of its teams.  His \<^verbatim>\<open>join-project\<close> is denied with an error
  event and leaves the rooms as they were; his \<^verbatim>\<open>GET /api/chat/:projectId\<close> is
  answered with the project's messages: the REST query asks for the id and the company
  only, without the role filter of the socket handlers.
\<close>

theorem history_served_where_join_denied:
  "u_role dave = employee \<and> u_id dave \<notin> set (p_members project1) \<and>
   p_team project1 \<notin> set (u_teams dave) \<and>
   join_project db_chat no_rooms sock_dave (p_id project1) =
     (no_rooms, [ToSocket 4 (ErrorEvent ''Project not found'')]) \<and>
   get_chat db_chat dave (p_id project1) None = Inr [populate_sender db_chat hello]"
  by (simp add: chat_defs chat_example_defs example_defs)

text \<open>
  One half of the parity holds between the two handlers: a user whom \<^verbatim>\<open>join-project\<close>
  admits is served the history by \<^verbatim>\<open>GET /api/chat/:projectId\<close>, when the REST
  authentication resolves the caller to the same user document as the socket carries
  (the socket keeps the user of its connection, the REST middleware loads the user at
  every request).
\<close>

theorem join_implies_history:
  assumes "snd (join_project d rs sock projectId) = []"
  shows "\<exists>ms. get_chat d (sock_user sock) projectId taskId = Inr ms"
proof -
  from assms obtain cid p where c: "u_company (sock_user sock) = Some cid"
    and p: "find (socket_project_query (sock_user sock) cid projectId) (projects d) = Some p"
    by (auto simp: join_project_def split: option.splits)
  have "find (chat_project_query cid projectId) (projects d) \<noteq> None"
    by (rule find_weaker [OF p]) (simp add: socket_project_query_def chat_project_query_def)
  with c show ?thesis
    by (auto simp: get_chat_def)
qed

theorem join_implies_history_example:
  "snd (join_project db_chat no_rooms sock_bob (p_id project1)) = [] \<and>
   get_chat db_chat bob (p_id project1) None = Inr [populate_sender db_chat hello]"
proof -
  have h: "snd (join_project db_chat no_rooms sock_bob (p_id project1)) = []"
    by (simp add: chat_defs chat_example_defs example_defs)
  have g: "get_chat db_chat bob (p_id project1) None = Inr [populate_sender db_chat hello]"
    by (simp add: chat_defs chat_example_defs example_defs)
  from join_implies_history [OF h] h g show ?thesis by simp
qed

section \<open>Sending a message\<close>

text \<open>
  C6 as stated: the payload kind follows from the optional field present, and exactly
  one kind is populated.  Alice sends a text together with a code snippet and names no
  message type: the message is stored as a \<^verbatim>\<open>text\<close> with both its content and its
  code populated.
\<close>

theorem two_kinds_stored:
  "send_message True db0 sock_alice both_data mid1 5 =
     (db0\<lparr>chatMessages := [both_message]\<rparr>,
      [ToRoom (project_room (p_id project1))
         (NewMessage (Some (populate_sender (db0\<lparr>chatMessages := [both_message]\<rparr>)
                              both_message)))]) \<and>
   messageType both_message = ''text'' \<and>
   payload_kinds both_message = 2"
  by (simp add: chat_defs chat_example_defs example_defs)

text \<open>
  C6, amended.  For every message stored by \<^verbatim>\<open>send-message\<close> from a payload that
  holds at least one of content, file, code: its message type is the one the payload
  names, \<^verbatim>\<open>text\<close> when it names none, and is one of text, file, code; its content,
  file and code are those of the payload, each stored exactly when present there (a
  content when truthy); at least one kind is populated, and as many as the payload
  holds, the kinds not being exclusive.
\<close>

theorem stored_message_follows_payload:
  "chatMessages (fst (send_message g d sock data newId now)) = chatMessages d @ [m] \<Longrightarrow>
   payload_has_kind data \<Longrightarrow>
   messageType m = (if truthy (d_messageType data) then the (d_messageType data)
                    else ''text'') \<and>
   messageType m \<in> {''text'', ''file'', ''code''} \<and>
   m_content m = (if truthy (d_content data) then d_content data else None) \<and>
   m_file m = d_file data \<and> m_code m = d_code data \<and>
   payload_kinds m =
     (if truthy (d_content data) then 1 else 0) + (if d_file data = None then 0 else 1)
       + (if d_code data = None then 0 else 1) \<and>
   1 \<le> payload_kinds m"
proof -
  assume "chatMessages (fst (send_message g d sock data newId now)) = chatMessages d @ [m]"
    and kind: "payload_has_kind data"
  then have "ChatMessage_create g (build_message_data sock data) newId now = Inr m"
    by (simp add: send_message_stored)
  from create_fields [OF this] kind show ?thesis
    by (auto simp: build_message_data_def payload_kinds_def payload_has_kind_def truthy_def
        split: option.splits)
qed

theorem stored_message_follows_payload_witness:
  "chatMessages (fst (send_message True db0 sock_alice both_data mid1 5)) =
     chatMessages db0 @ [both_message] \<and>
   payload_has_kind both_data \<and>
   messageType both_message = ''text'' \<and> m_content both_message = Some ''see this'' \<and>
   m_code both_message = Some snippet \<and> payload_kinds both_message = 2"
proof -
  have h: "chatMessages (fst (send_message True db0 sock_alice both_data mid1 5)) =
      chatMessages db0 @ [both_message]"
    by (simp add: chat_defs chat_example_defs example_defs)
  have k: "payload_has_kind both_data"
    by (simp add: payload_has_kind_def both_data_def truthy_def)
  show ?thesis
    using h k stored_message_follows_payload [OF h k] by (simp add: both_data_def truthy_def)
qed

text \<open>
  With a validator of \<^verbatim>\<open>content\<close> that sees an unset \<^verbatim>\<open>file\<close> and \<^verbatim>\<open>code\<close> as
  unset, every stored message has at least one kind populated, whatever the payload.
\<close>

lemma stored_has_kind_if_unset_undefined:
  assumes "chatMessages (fst (send_message False d sock data newId now)) = chatMessages d @ [m]"
  shows "1 \<le> payload_kinds m"
proof -
  from assms have c: "ChatMessage_create False (build_message_data sock data) newId now = Inr m"
    by (simp add: send_message_stored)
  then have "payload_has_kind data"
    by (auto simp: ChatMessage_create_def content_required_def path_truthy_def
        build_message_data_def payload_has_kind_def truthy_def split: if_splits option.splits)
  with create_fields [OF c] show ?thesis
    by (auto simp: build_message_data_def payload_kinds_def payload_has_kind_def truthy_def
        split: option.splits)
qed

text \<open>
  C8 (a payload with no content, file or code).  Alice, a member of the project, sends
  a payload that holds the project id only.  The validator of \<^verbatim>\<open>content\<close> reads
  \<^verbatim>\<open>this.file\<close> and \<^verbatim>\<open>this.code\<close>, nested paths whose getters yield a nested object
  also when the path was never set, so \<^verbatim>\<open>content\<close> is never required: the empty
  message is stored as a \<^verbatim>\<open>text\<close> and broadcast, and no error is reported.
\<close>

theorem empty_message_stored:
  "send_message True db0 sock_alice empty_data mid1 5 =
     (db0\<lparr>chatMessages := [empty_message]\<rparr>,
      [ToRoom (project_room (p_id project1))
         (NewMessage (Some (populate_sender (db0\<lparr>chatMessages := [empty_message]\<rparr>)
                              empty_message)))]) \<and>
   payload_kinds empty_message = 0"
  by (simp add: chat_defs chat_example_defs example_defs)

text \<open>
  Were the getter of an unset nested path to yield \<^verbatim>\<open>undefined\<close>, the validator would
  reject such a payload: nothing would be stored, and the sender would get an error
  event.
\<close>

theorem empty_payload_rejected_if_unset_undefined:
  "\<not> truthy (d_content data) \<Longrightarrow> d_file data = None \<Longrightarrow> d_code data = None \<Longrightarrow>
   fst (send_message False d sock data newId now) = d \<and>
   (snd (send_message False d sock data newId now) =
      [ToSocket (sock_id sock) (ErrorEvent ''Error sending message'')] \<or>
    snd (send_message False d sock data newId now) =
      [ToSocket (sock_id sock) (ErrorEvent ''Project not found'')])"
proof -
  assume "\<not> truthy (d_content data)" "d_file data = None" "d_code data = None"
  then have "ChatMessage_create False (build_message_data sock data) newId now = Inl ValidationError"
    by (simp add: ChatMessage_create_def content_required_def path_truthy_def
        build_message_data_def truthy_def)
  then show ?thesis
    by (simp add: send_message_def split: option.splits)
qed

theorem empty_payload_rejected_if_unset_undefined_example:
  "\<not> truthy (d_content empty_data) \<and> d_file empty_data = None \<and> d_code empty_data = None \<and>
   send_message False db0 sock_alice empty_data mid1 5 =
     (db0, [ToSocket 1 (ErrorEvent ''Error sending message'')])"
proof -
  have h: "\<not> truthy (d_content empty_data)" "d_file empty_data = None" "d_code empty_data = None"
    by (simp_all add: empty_data_def truthy_def)
  have "snd (send_message False db0 sock_alice empty_data mid1 5) \<noteq>
      [ToSocket (sock_id sock_alice) (ErrorEvent ''Project not found'')]"
    by (simp add: chat_defs chat_example_defs example_defs)
  with h empty_payload_rejected_if_unset_undefined [OF h, of db0 sock_alice mid1 5]
  show ?thesis by (auto simp: prod_eq_iff sock_alice_def)
qed

text \<open>
  C7 as stated: the message is also broadcast to the project's chat-room when the
  project has one.  The project has a chat-room and Bob has joined it, Alice's payload
  names no chat-room: the message is stored and sent to the primary room only, and
  nothing reaches Bob through the chat-room.
\<close>

theorem chat_room_not_addressed:
  "truthy (p_chatRoom project1) \<and>
   2 \<in> rooms_bob (the (p_chatRoom project1)) \<and>
   fst (send_message True db0 sock_alice hello_data mid1 5) = db_chat \<and>
   snd (send_message True db0 sock_alice hello_data mid1 5) =
     [ToRoom (project_room (p_id project1))
        (NewMessage (Some (populate_sender db_chat hello)))] \<and>
   via_room rooms_bob (snd (send_message True db0 sock_alice hello_data mid1 5))
     (the (p_chatRoom project1)) 2 = []"
  by (simp add: rooms_bob_eq) (simp add: chat_defs chat_example_defs example_defs)

text \<open>
  C7, amended.  For every message stored by \<^verbatim>\<open>send-message\<close> for a project \<open>P\<close>
  (under a fresh id) from a payload that names no chat-room or names the chat-room of
  \<open>P\<close>: the stored message with its sender populated is sent to the primary room of
  \<open>P\<close> and, when the payload names the chat-room of \<open>P\<close>, also to that chat-room, and
  to nothing else.  Every socket of the primary room receives it once through that
  room, every socket of the chat-room once through the chat-room when the payload
  names it, and nothing is received through any other room or by a socket outside the
  room.
\<close>

theorem stored_message_broadcast:
  "chatMessages (fst (send_message g d sock data newId now)) = chatMessages d @ [m] \<Longrightarrow>
   list_all (\<lambda>x. m_id x \<noteq> newId) (chatMessages d) \<Longrightarrow>
   accessible_project d (sock_user sock) (d_projectId data) = Some proj \<Longrightarrow>
   names_project_room data proj \<Longrightarrow>
   snd (send_message g d sock data newId now) =
     ToRoom (project_room (d_projectId data))
       (NewMessage (Some (populate_sender (fst (send_message g d sock data newId now)) m))) #
     (if truthy (d_chatRoom data)
      then [ToRoom (the (p_chatRoom proj))
              (NewMessage
                 (Some (populate_sender (fst (send_message g d sock data newId now)) m)))]
      else []) \<and>
   via_room rs (snd (send_message g d sock data newId now)) r x =
     (if x \<in> rs r \<and>
         (r = project_room (d_projectId data) \<or>
          truthy (d_chatRoom data) \<and> p_chatRoom proj = Some r)
      then [NewMessage (Some (populate_sender (fst (send_message g d sock data newId now)) m))]
      else [])"
proof -
  assume stored:
    "chatMessages (fst (send_message g d sock data newId now)) = chatMessages d @ [m]"
    and fresh: "list_all (\<lambda>x. m_id x \<noteq> newId) (chatMessages d)"
    and own: "names_project_room data proj"
  note s = send_message_stored [OF stored]
  from s have "m_id m = newId"
    by (auto dest: create_fields)
  with fresh have f: "find (\<lambda>x. m_id x = m_id m) (chatMessages d @ [m]) = Some m"
    by (simp add: find_fresh)
  have room: "d_chatRoom data = p_chatRoom proj"
    "the (p_chatRoom proj) \<noteq> project_room (d_projectId data)"
    "p_chatRoom proj = Some (the (p_chatRoom proj))" if "truthy (d_chatRoom data)"
    using own that by (auto simp: names_project_room_def truthy_def split: option.splits)
  have ems: "snd (send_message g d sock data newId now) =
     ToRoom (project_room (d_projectId data))
       (NewMessage (Some (populate_sender (fst (send_message g d sock data newId now)) m))) #
     (if truthy (d_chatRoom data)
      then [ToRoom (the (p_chatRoom proj))
              (NewMessage
                 (Some (populate_sender (fst (send_message g d sock data newId now)) m)))]
      else [])"
    using s f room by simp
  show ?thesis
  proof (rule conjI [OF ems], cases "truthy (d_chatRoom data)")
    case True
    from room [OF True] show "via_room rs (snd (send_message g d sock data newId now)) r x =
     (if x \<in> rs r \<and>
         (r = project_room (d_projectId data) \<or>
          truthy (d_chatRoom data) \<and> p_chatRoom proj = Some r)
      then [NewMessage (Some (populate_sender (fst (send_message g d sock data newId now)) m))]
      else [])"
      by (auto simp: ems via_room_def True)
  next
    case False
    then show "via_room rs (snd (send_message g d sock data newId now)) r x =
     (if x \<in> rs r \<and>
         (r = project_room (d_projectId data) \<or>
          truthy (d_chatRoom data) \<and> p_chatRoom proj = Some r)
      then [NewMessage (Some (populate_sender (fst (send_message g d sock data newId now)) m))]
      else [])"
      by (auto simp: ems via_room_def)
  qed
qed

theorem stored_message_broadcast_witness:
  "chatMessages (fst (send_message True db0 sock_alice hello_room_data mid1 5)) =
     chatMessages db0 @ [hello] \<and>
   list_all (\<lambda>x. m_id x \<noteq> mid1) (chatMessages db0) \<and>
   accessible_project db0 (sock_user sock_alice) (d_projectId hello_room_data)
     = Some project1 \<and>
   names_project_room hello_room_data project1 \<and>
   truthy (d_chatRoom hello_room_data) \<and>
   via_room rooms_bob (snd (send_message True db0 sock_alice hello_room_data mid1 5))
     (project_room (p_id project1)) 2 = [NewMessage (Some (populate_sender db_chat hello))] \<and>
   via_room rooms_bob (snd (send_message True db0 sock_alice hello_room_data mid1 5))
     (the (p_chatRoom project1)) 2 = [NewMessage (Some (populate_sender db_chat hello))] \<and>
   via_room rooms_bob (snd (send_message True db0 sock_alice hello_room_data mid1 5))
     (project_room (p_id project1)) 4 = []"
proof -
  have h: "chatMessages (fst (send_message True db0 sock_alice hello_room_data mid1 5)) =
      chatMessages db0 @ [hello]"
    by (simp add: chat_defs chat_example_defs example_defs)
  have f: "list_all (\<lambda>x. m_id x \<noteq> mid1) (chatMessages db0)"
    by (simp add: db0_def)
  have a: "accessible_project db0 (sock_user sock_alice) (d_projectId hello_room_data)
      = Some project1"
    by (simp add: accessible_project_def chat_defs chat_example_defs example_defs)
  have n: "names_project_room hello_room_data project1"
    by (simp add: names_project_room_def chat_defs chat_example_defs example_defs)
  have d: "fst (send_message True db0 sock_alice hello_room_data mid1 5) = db_chat"
    by (simp add: chat_defs chat_example_defs example_defs)
  have r: "truthy (d_chatRoom hello_room_data)"
    "d_projectId hello_room_data = p_id project1"
    "p_chatRoom project1 = Some (the (p_chatRoom project1))"
    "the (p_chatRoom project1) \<noteq> project_room (p_id project1)"
    "project_room (p_id project1) \<noteq> the (p_chatRoom project1)"
    by (simp_all add: chat_defs chat_example_defs example_defs)
  have m: "2 \<in> rooms_bob (project_room (p_id project1))"
    "2 \<in> rooms_bob (the (p_chatRoom project1))"
    "4 \<notin> rooms_bob (project_room (p_id project1))"
    by (simp_all add: rooms_bob_eq)
  have v1: "via_room rooms_bob (snd (send_message True db0 sock_alice hello_room_data mid1 5))
      (project_room (p_id project1)) 2 = [NewMessage (Some (populate_sender db_chat hello))]"
    using stored_message_broadcast
      [OF h f a n, of rooms_bob "project_room (p_id project1)" 2, THEN conjunct2]
    by (simp add: d r(1,2) m)
  have v2: "via_room rooms_bob (snd (send_message True db0 sock_alice hello_room_data mid1 5))
      (the (p_chatRoom project1)) 2 = [NewMessage (Some (populate_sender db_chat hello))]"
    using stored_message_broadcast
      [OF h f a n, of rooms_bob "the (p_chatRoom project1)" 2, THEN conjunct2] r(3)
    by (simp add: d r(1,2) m)
  have v3: "via_room rooms_bob (snd (send_message True db0 sock_alice hello_room_data mid1 5))
      (project_room (p_id project1)) 4 = []"
    using stored_message_broadcast
      [OF h f a n, of rooms_bob "project_room (p_id project1)" 4, THEN conjunct2]
    by (simp add: d r(1,2) m)
  from h f a n r(1) v1 v2 v3 show ?thesis by blast
qed

section \<open>Typing indicators\<close>



end
